theory Spec2Isabelle
  imports Complex_Main "HOL-Library.AList" "HOL-Library.Multiset"
begin

section \<open>JavaScript numbers\<close>

text \<open>
  The engine computes with JavaScript numbers, which are IEEE doubles. A number is
  modelled as a real or one of the three special values \<open>Infinity\<close>, \<open>-Infinity\<close> and
  \<open>NaN\<close>, with the IEEE rules for the special values written out: a division by zero
  gives an infinity or \<open>NaN\<close>, \<open>Infinity - Infinity\<close> and \<open>0 * Infinity\<close> give \<open>NaN\<close>,
  every comparison with \<open>NaN\<close> is false, and \<open>Math.max\<close> and \<open>Math.min\<close> return \<open>NaN\<close>
  as soon as an argument is \<open>NaN\<close>. A finite result overflows to an infinity as a double
  does: at the magnitude \<open>2^1024 - 2^970\<close>, half a unit in the last place above the
  largest double. Below that magnitude a result is kept exact: rounding to the nearest
  double, underflow and the sign of zero are not modelled. Where the source reads
  \<open>undefined\<close> (a missing array slot or key) and then does arithmetic on it, the model
  reads \<open>NaN\<close>, which is what the arithmetic makes of \<open>undefined\<close>.
\<close>

datatype jsnum = Fin real | PosInf | NegInf | NaN

definition overflowAt :: real where
  "overflowAt = 2 ^ 1024 - 2 ^ 970"

text \<open>The finite result \<open>x\<close> of an operation, as the double arithmetic delivers it.\<close>

definition fin :: "real \<Rightarrow> jsnum" where
  "fin x = (if overflowAt \<le> x then PosInf else if x \<le> - overflowAt then NegInf else Fin x)"

fun jneg :: "jsnum \<Rightarrow> jsnum" where
  "jneg (Fin a) = Fin (- a)"
| "jneg PosInf = NegInf"
| "jneg NegInf = PosInf"
| "jneg NaN = NaN"

fun jadd :: "jsnum \<Rightarrow> jsnum \<Rightarrow> jsnum" where
  "jadd NaN _ = NaN"
| "jadd _ NaN = NaN"
| "jadd (Fin a) (Fin b) = fin (a + b)"
| "jadd (Fin a) PosInf = PosInf"
| "jadd (Fin a) NegInf = NegInf"
| "jadd PosInf (Fin b) = PosInf"
| "jadd NegInf (Fin b) = NegInf"
| "jadd PosInf PosInf = PosInf"
| "jadd NegInf NegInf = NegInf"
| "jadd PosInf NegInf = NaN"
| "jadd NegInf PosInf = NaN"

definition jsub :: "jsnum \<Rightarrow> jsnum \<Rightarrow> jsnum" where
  "jsub a b = jadd a (jneg b)"

fun jmul :: "jsnum \<Rightarrow> jsnum \<Rightarrow> jsnum" where
  "jmul NaN _ = NaN"
| "jmul _ NaN = NaN"
| "jmul (Fin a) (Fin b) = fin (a * b)"
| "jmul (Fin a) PosInf = (if a = 0 then NaN else if 0 < a then PosInf else NegInf)"
| "jmul (Fin a) NegInf = (if a = 0 then NaN else if 0 < a then NegInf else PosInf)"
| "jmul PosInf (Fin b) = (if b = 0 then NaN else if 0 < b then PosInf else NegInf)"
| "jmul NegInf (Fin b) = (if b = 0 then NaN else if 0 < b then NegInf else PosInf)"
| "jmul PosInf PosInf = PosInf"
| "jmul NegInf NegInf = PosInf"
| "jmul PosInf NegInf = NegInf"
| "jmul NegInf PosInf = NegInf"

fun jdiv :: "jsnum \<Rightarrow> jsnum \<Rightarrow> jsnum" where
  "jdiv NaN _ = NaN"
| "jdiv _ NaN = NaN"
| "jdiv (Fin a) (Fin b) =
     (if b = 0 then (if a = 0 then NaN else if 0 < a then PosInf else NegInf)
      else fin (a / b))"
| "jdiv (Fin a) PosInf = Fin 0"
| "jdiv (Fin a) NegInf = Fin 0"
| "jdiv PosInf (Fin b) = (if b < 0 then NegInf else PosInf)"
| "jdiv NegInf (Fin b) = (if b < 0 then PosInf else NegInf)"
| "jdiv PosInf PosInf = NaN"
| "jdiv NegInf NegInf = NaN"
| "jdiv PosInf NegInf = NaN"
| "jdiv NegInf PosInf = NaN"

text \<open>\<open>Math.abs\<close>, \<open>Math.sqrt\<close> and \<open>Math.pow(x, 2)\<close>.\<close>

fun jabs :: "jsnum \<Rightarrow> jsnum" where
  "jabs (Fin a) = Fin \<bar>a\<bar>"
| "jabs PosInf = PosInf"
| "jabs NegInf = PosInf"
| "jabs NaN = NaN"

fun jsqrt :: "jsnum \<Rightarrow> jsnum" where
  "jsqrt (Fin a) = (if a < 0 then NaN else Fin (sqrt a))"
| "jsqrt PosInf = PosInf"
| "jsqrt NegInf = NaN"
| "jsqrt NaN = NaN"

fun jpow2 :: "jsnum \<Rightarrow> jsnum" where
  "jpow2 (Fin a) = fin (a * a)"
| "jpow2 PosInf = PosInf"
| "jpow2 NegInf = PosInf"
| "jpow2 NaN = NaN"

text \<open>The comparison \<open>a < b\<close>; \<open>a > b\<close> is \<open>jlt b a\<close>.\<close>

fun jlt :: "jsnum \<Rightarrow> jsnum \<Rightarrow> bool" where
  "jlt NaN _ = False"
| "jlt _ NaN = False"
| "jlt (Fin a) (Fin b) = (a < b)"
| "jlt (Fin a) PosInf = True"
| "jlt (Fin a) NegInf = False"
| "jlt PosInf _ = False"
| "jlt NegInf (Fin b) = True"
| "jlt NegInf PosInf = True"
| "jlt NegInf NegInf = False"

definition jgt :: "jsnum \<Rightarrow> jsnum \<Rightarrow> bool" where
  "jgt a b = jlt b a"

text \<open>\<open>Math.max\<close> and \<open>Math.min\<close> of two arguments.\<close>

definition jmax :: "jsnum \<Rightarrow> jsnum \<Rightarrow> jsnum" where
  "jmax a b = (if a = NaN \<or> b = NaN then NaN else if jlt a b then b else a)"

definition jmin :: "jsnum \<Rightarrow> jsnum \<Rightarrow> jsnum" where
  "jmin a b = (if a = NaN \<or> b = NaN then NaN else if jlt b a then b else a)"

text \<open>
  Truthiness of a number (\<open>0\<close> and \<open>NaN\<close> are falsy), and \<open>x || d\<close> on a possibly
  absent number: \<open>undefined\<close> is falsy too.
\<close>

definition truthy :: "jsnum \<Rightarrow> bool" where
  "truthy x = (x \<noteq> Fin 0 \<and> x \<noteq> NaN)"

definition orElse :: "jsnum option \<Rightarrow> jsnum \<Rightarrow> jsnum" where
  "orElse v d = (case v of None \<Rightarrow> d | Some x \<Rightarrow> if truthy x then x else d)"

text \<open>Reading an array slot that is then used as a number.\<close>

definition numAt :: "jsnum list \<Rightarrow> nat \<Rightarrow> jsnum" where
  "numAt xs i = (if i < length xs then xs ! i else NaN)"

definition numAt2 :: "jsnum list list \<Rightarrow> nat \<Rightarrow> nat \<Rightarrow> jsnum" where
  "numAt2 m i j = (if i < length m then numAt (m ! i) j else NaN)"

text \<open>\<open>xs.reduce((sum, val) => sum + val, 0)\<close>.\<close>

definition sumOf :: "jsnum list \<Rightarrow> jsnum" where
  "sumOf xs = fold (\<lambda>val sum. jadd sum val) xs (Fin 0)"

section \<open>Records and errors\<close>

text \<open>
  \<open>Student\<close> is the interface of the data module; \<open>class\<close> is a keyword here, so
  that field is \<open>class_name\<close>. \<open>Partial<Student>\<close> makes every field optional.
\<close>

record Student =
  student_id :: string
  name :: string
  class_name :: string
  comprehension :: jsnum
  attention :: jsnum
  focus :: jsnum
  retention :: jsnum
  assessment_score :: jsnum
  engagement_time :: jsnum

record PartialStudent =
  p_student_id :: "string option"
  p_name :: "string option"
  p_class_name :: "string option"
  p_comprehension :: "jsnum option"
  p_attention :: "jsnum option"
  p_focus :: "jsnum option"
  p_retention :: "jsnum option"
  p_assessment_score :: "jsnum option"
  p_engagement_time :: "jsnum option"

definition toPartial :: "Student \<Rightarrow> PartialStudent" where
  "toPartial s =
     \<lparr>p_student_id = Some (student_id s), p_name = Some (name s),
      p_class_name = Some (class_name s),
      p_comprehension = Some (comprehension s), p_attention = Some (attention s),
      p_focus = Some (focus s), p_retention = Some (retention s),
      p_assessment_score = Some (assessment_score s),
      p_engagement_time = Some (engagement_time s)\<rparr>"

text \<open>
  The source has no error classes of its own. It throws one \<open>Error\<close> with a message
  (in \<open>predict\<close>), and the runtime throws a \<open>TypeError\<close> where a property of
  \<open>undefined\<close> is read.
\<close>

datatype error = Error string | TypeError

record MLPrediction =
  predicted_score :: jsnum
  confidence :: jsnum
  feature_importance :: "(string \<times> jsnum) list"

record ClusterResult =
  cluster_id :: nat
  persona :: string
  description :: string
  characteristics :: "(string \<times> jsnum) list"

text \<open>
  A \<open>Record<string, number>\<close> is an association list in insertion order;
  \<open>obj[key] = v\<close> is \<open>AList.update\<close>, and \<open>obj[key]\<close> read as a number is \<open>getNum\<close>.
\<close>

definition getNum :: "(string \<times> jsnum) list \<Rightarrow> string \<Rightarrow> jsnum" where
  "getNum obj key = (case map_of obj key of None \<Rightarrow> NaN | Some v \<Rightarrow> v)"

section \<open>LinearRegressionModel\<close>

record LinearRegressionModel =
  coefficients :: "(string \<times> jsnum) list"
  intercept :: jsnum
  isTrained :: bool

definition newLinearRegressionModel :: LinearRegressionModel where
  "newLinearRegressionModel = \<lparr>coefficients = [], intercept = Fin 0, isTrained = False\<rparr>"

definition featureNames :: "string list" where
  "featureNames = [''comprehension'', ''attention'', ''focus'', ''retention'', ''engagement_time'']"

subsection \<open>Matrix helpers\<close>

text \<open>\<open>matrix[0].map(...)\<close> throws on an empty matrix.\<close>

definition transpose_m :: "jsnum list list \<Rightarrow> error + jsnum list list" where
  "transpose_m matrix =
     (case matrix of [] \<Rightarrow> Inl TypeError
      | row0 # _ \<Rightarrow>
          Inr (map (\<lambda>colIndex. map (\<lambda>row. numAt row colIndex) matrix) [0..<length row0]))"

text \<open>
  The inner loop bound \<open>b[0].length\<close> is read once the outer loop runs, so it throws
  when \<open>b\<close> is empty and \<open>a\<close> is not.
\<close>

definition matrixMultiply :: "jsnum list list \<Rightarrow> jsnum list list \<Rightarrow> error + jsnum list list" where
  "matrixMultiply a b =
     (if a = [] then Inr []
      else case b of [] \<Rightarrow> Inl TypeError
      | b0 # _ \<Rightarrow>
          Inr (map (\<lambda>i. map (\<lambda>j. fold (\<lambda>k acc. jadd acc (jmul (numAt2 a i k) (numAt2 b k j)))
                                      [0..<length b] (Fin 0))
                            [0..<length b0])
                   [0..<length a]))"

definition vectorMultiply :: "jsnum list list \<Rightarrow> jsnum list \<Rightarrow> jsnum list" where
  "vectorMultiply matrix vector =
     map (\<lambda>row. fold (\<lambda>(index, val) sum. jadd sum (jmul val (numAt vector index)))
                     (enumerate 0 row) (Fin 0))
         matrix"

subsection \<open>matrixInverse\<close>

text \<open>
  Gauss-Jordan elimination on the augmented matrix. The rows of the augmented matrix
  have \<open>2 * n\<close> entries when the matrix is square, which is how \<open>train\<close> calls it (the
  6 by 6 cross product); the loops over \<open>j < 2 * n\<close> are then maps over a whole row.
  There is no test of the pivot: the row is divided by it whatever it is.
\<close>

definition identity_m :: "nat \<Rightarrow> jsnum list list" where
  "identity_m n = map (\<lambda>i. map (\<lambda>j. if i = j then Fin 1 else Fin 0) [0..<n]) [0..<n]"

definition findPivot :: "jsnum list list \<Rightarrow> nat \<Rightarrow> nat \<Rightarrow> nat" where
  "findPivot augmented n i =
     fold (\<lambda>k maxRow. if jgt (jabs (numAt2 augmented k i)) (jabs (numAt2 augmented maxRow i))
                        then k else maxRow)
          [i + 1..<n] i"

definition swapRows :: "jsnum list list \<Rightarrow> nat \<Rightarrow> nat \<Rightarrow> jsnum list list" where
  "swapRows augmented i maxRow =
     (augmented[i := augmented ! maxRow])[maxRow := augmented ! i]"

definition scaleRow :: "jsnum list list \<Rightarrow> nat \<Rightarrow> jsnum list list" where
  "scaleRow augmented i =
     (let pivot = numAt2 augmented i i
      in augmented[i := map (\<lambda>x. jdiv x pivot) (augmented ! i)])"

definition eliminateColumn :: "jsnum list list \<Rightarrow> nat \<Rightarrow> jsnum list list" where
  "eliminateColumn augmented i =
     map (\<lambda>(k, row).
            if k \<noteq> i
            then (let factor = numAt row i
                  in map (\<lambda>(x, p). jsub x (jmul factor p)) (zip row (augmented ! i)))
            else row)
         (enumerate 0 augmented)"

definition gaussStep :: "nat \<Rightarrow> nat \<Rightarrow> jsnum list list \<Rightarrow> jsnum list list" where
  "gaussStep n i augmented =
     eliminateColumn (scaleRow (swapRows augmented i (findPivot augmented n i)) i) i"

definition matrixInverse :: "jsnum list list \<Rightarrow> jsnum list list" where
  "matrixInverse matrix =
     (let n = length matrix;
          augmented = map (\<lambda>(i, row). row @ identity_m n ! i) (enumerate 0 matrix)
      in map (drop n) (fold (gaussStep n) [0..<n] augmented))"

subsection \<open>Fitting and prediction\<close>

text \<open>\<open>X[0].length\<close> throws a \<open>TypeError\<close> when \<open>X\<close> is empty.\<close>

definition fitLinearRegression ::
  "jsnum list list \<Rightarrow> jsnum list \<Rightarrow> string list \<Rightarrow> error + (jsnum \<times> (string \<times> jsnum) list)" where
  "fitLinearRegression X y names =
     (case X of [] \<Rightarrow> Inl TypeError
      | _ # _ \<Rightarrow>
        (let XWithIntercept = map (\<lambda>row. Fin 1 # row) X
         in case transpose_m XWithIntercept of Inl e \<Rightarrow> Inl e
            | Inr XTranspose \<Rightarrow>
              (case matrixMultiply XTranspose XWithIntercept of Inl e \<Rightarrow> Inl e
               | Inr XTX \<Rightarrow>
                 (let XTXInverse = matrixInverse XTX;
                      XTy = vectorMultiply XTranspose y;
                      coeffs = vectorMultiply XTXInverse XTy;
                      coefs = fold (\<lambda>(index, nm) c. AList.update nm (numAt coeffs (index + 1)) c)
                                   (enumerate 0 names) []
                  in Inr (numAt coeffs 0, coefs)))))"

definition train :: "LinearRegressionModel \<Rightarrow> Student list \<Rightarrow> error + LinearRegressionModel" where
  "train m students =
     (let X = map (\<lambda>student. [comprehension student, attention student, focus student,
                               retention student, jdiv (engagement_time student) (Fin 100)])
                  students;
          y = map assessment_score students
      in case fitLinearRegression X y featureNames of
           Inl e \<Rightarrow> Inl e
         | Inr (icpt, coefs) \<Rightarrow>
             Inr (m\<lparr>coefficients := coefs, intercept := icpt, isTrained := True\<rparr>))"

text \<open>
  The \<open>forEach\<close> of \<open>predict\<close>: one pass that adds each contribution to the prediction
  and stores the magnitude of the coefficient under the feature's name.
\<close>

definition predictStep ::
  "LinearRegressionModel \<Rightarrow> nat \<times> jsnum \<Rightarrow> jsnum \<times> (string \<times> jsnum) list
     \<Rightarrow> jsnum \<times> (string \<times> jsnum) list" where
  "predictStep m = (\<lambda>(index, v) (prediction, importance).
     (let key = featureNames ! index;
          contribution = jmul v (getNum (coefficients m) key)
      in (jadd prediction contribution,
          AList.update key (jabs (getNum (coefficients m) key)) importance)))"

definition normalizeImportance :: "(string \<times> jsnum) list \<Rightarrow> (string \<times> jsnum) list" where
  "normalizeImportance importance =
     (let totalImportance = sumOf (map snd importance)
      in fold (\<lambda>key imp. AList.update key
                            (jmul (jdiv (getNum imp key) totalImportance) (Fin 100)) imp)
              (map fst importance) importance)"

definition notTrained :: error where
  "notTrained = Error ''Model must be trained before making predictions''"

definition predict :: "LinearRegressionModel \<Rightarrow> PartialStudent \<Rightarrow> error + MLPrediction" where
  "predict m student =
     (if \<not> isTrained m then Inl notTrained
      else
        (let features = [orElse (p_comprehension student) (Fin 0),
                         orElse (p_attention student) (Fin 0),
                         orElse (p_focus student) (Fin 0),
                         orElse (p_retention student) (Fin 0),
                         jdiv (orElse (p_engagement_time student) (Fin 0)) (Fin 100)];
             (prediction, importance) =
                fold (predictStep m) (enumerate 0 features) (intercept m, []);
             conf = jmax (Fin (6 / 10))
                      (jmin (Fin (95 / 100))
                         (jsub (Fin 1) (jdiv (jabs (jsub prediction (Fin 75))) (Fin 100))))
         in Inr \<lparr>predicted_score = jmax (Fin 0) (jmin (Fin 100) prediction),
                 confidence = conf,
                 feature_importance = normalizeImportance importance\<rparr>))"

record ModelSummary =
  ms_type :: string
  ms_coefficients :: "(string \<times> jsnum) list"
  ms_intercept :: jsnum
  ms_trained :: bool

definition getModelSummary :: "LinearRegressionModel \<Rightarrow> error + ModelSummary" where
  "getModelSummary m =
     Inr \<lparr>ms_type = ''Linear Regression'', ms_coefficients = coefficients m,
          ms_intercept = intercept m, ms_trained = isTrained m\<rparr>"

section \<open>StudentClusterer\<close>

record StudentClusterer =
  clusters :: "ClusterResult list"
  centroids :: "jsnum list list"
  isTrainedC :: bool

definition newStudentClusterer :: StudentClusterer where
  "newStudentClusterer = \<lparr>clusters = [], centroids = [], isTrainedC = False\<rparr>"

text \<open>
  \<open>row.forEach((val, index) => acc[index] = f(acc[index], val))\<close>: the accumulation
  of a row into an array, slot by slot. A slot beyond the end of \<open>acc\<close> is created
  from \<open>undefined\<close>, read as \<open>NaN\<close>.
\<close>

fun accumulate :: "(jsnum \<Rightarrow> jsnum \<Rightarrow> jsnum) \<Rightarrow> jsnum list \<Rightarrow> jsnum list \<Rightarrow> jsnum list" where
  "accumulate f acc [] = acc"
| "accumulate f [] (v # vs) = f NaN v # accumulate f [] vs"
| "accumulate f (a # as) (v # vs) = f a v # accumulate f as vs"

subsection \<open>normalizeFeatures\<close>

text \<open>
  Means and (population) standard deviations per column, then z-scores, with a standard
  deviation of zero replaced by 1. The means and deviations are local: they are neither
  returned nor stored. \<open>features[0].length\<close> throws on an empty list.
\<close>

definition columnMeans :: "jsnum list list \<Rightarrow> nat \<Rightarrow> jsnum list" where
  "columnMeans features numFeatures =
     map (\<lambda>sum. jdiv sum (Fin (real (length features))))
         (fold (\<lambda>row means. accumulate jadd means row) features
               (replicate numFeatures (Fin 0)))"

definition columnStds :: "jsnum list list \<Rightarrow> nat \<Rightarrow> jsnum list \<Rightarrow> jsnum list" where
  "columnStds features numFeatures means =
     map (\<lambda>sum. jsqrt (jdiv sum (Fin (real (length features)))))
         (fold (\<lambda>row stds.
                  accumulate jadd stds
                    (map (\<lambda>(index, val). jpow2 (jsub val (numAt means index)))
                         (enumerate 0 row)))
               features (replicate numFeatures (Fin 0)))"

definition normalizeFeatures :: "jsnum list list \<Rightarrow> error + jsnum list list" where
  "normalizeFeatures features =
     (case features of [] \<Rightarrow> Inl TypeError
      | row0 # _ \<Rightarrow>
        (let numFeatures = length row0;
             means = columnMeans features numFeatures;
             stds = columnStds features numFeatures means
         in Inr (map (\<lambda>row.
                        map (\<lambda>(index, val).
                               jdiv (jsub val (numAt means index))
                                    (orElse (Some (numAt stds index)) (Fin 1)))
                            (enumerate 0 row))
                     features)))"

subsection \<open>kmeans\<close>

definition euclideanDistance :: "jsnum list \<Rightarrow> jsnum list \<Rightarrow> jsnum" where
  "euclideanDistance a b =
     jsqrt (fold (\<lambda>(index, val) sum. jadd sum (jpow2 (jsub val (numAt b index))))
                 (enumerate 0 a) (Fin 0))"

text \<open>
  The search for the nearest centroid, written twice in the source (in \<open>kmeans\<close> and
  in \<open>predictCluster\<close>): the first centroid at the least distance wins, and index 0 is
  the answer when no distance is below \<open>Infinity\<close>.
\<close>

definition nearestCentroid :: "jsnum list list \<Rightarrow> jsnum list \<Rightarrow> nat" where
  "nearestCentroid cents point =
     snd (fold (\<lambda>(index, centroid) (minDistance, nearest).
                  (let distance = euclideanDistance point centroid
                   in if jlt distance minDistance then (distance, index)
                      else (minDistance, nearest)))
               (enumerate 0 cents) (PosInf, 0))"

text \<open>
  The centroid update of one iteration: sums and counts per cluster, then the division
  of the sums of every cluster that has a point. The labels are those of the assignment
  just made, so each is below \<open>k\<close>.
\<close>

definition sumStep ::
  "nat \<Rightarrow> jsnum list \<Rightarrow> jsnum list list \<times> nat list \<Rightarrow> jsnum list list \<times> nat list" where
  "sumStep cluster point = (\<lambda>(newCentroids, counts).
     (newCentroids[cluster := accumulate jadd (newCentroids ! cluster) point],
      counts[cluster := counts ! cluster + 1]))"

definition clusterSums ::
  "jsnum list list \<Rightarrow> nat list \<Rightarrow> nat \<Rightarrow> nat \<Rightarrow> jsnum list list \<times> nat list" where
  "clusterSums data labels k d =
     fold (\<lambda>(index, point). sumStep (labels ! index) point)
          (enumerate 0 data) (replicate k (replicate d (Fin 0)), replicate k 0)"

definition updateCentroids ::
  "jsnum list list \<Rightarrow> nat list \<Rightarrow> nat \<Rightarrow> nat \<Rightarrow> jsnum list list" where
  "updateCentroids data labels k d =
     (let (newCentroids, counts) = clusterSums data labels k d
      in map (\<lambda>(index, centroid).
                if counts ! index > 0
                then map (\<lambda>sum. jdiv sum (Fin (real (counts ! index)))) centroid
                else centroid)
             (enumerate 0 newCentroids))"

text \<open>
  The initial centroids are copies of data points drawn at random; \<open>rnd i\<close> stands for
  the value of \<open>Math.floor(Math.random() * n)\<close> at the \<open>i\<close>-th draw, a number below \<open>n\<close>.
\<close>

definition initCentroids :: "jsnum list list \<Rightarrow> nat \<Rightarrow> (nat \<Rightarrow> nat) \<Rightarrow> jsnum list list" where
  "initCentroids data k rnd = map (\<lambda>i. data ! rnd i) [0..<k]"

fun kmeansLoop ::
  "nat \<Rightarrow> jsnum list list \<Rightarrow> nat \<Rightarrow> nat \<Rightarrow> nat list \<Rightarrow> jsnum list list
     \<Rightarrow> nat list \<times> jsnum list list" where
  "kmeansLoop 0 data k d labels cents = (labels, cents)"
| "kmeansLoop (Suc iters) data k d labels cents =
     (let newLabels = map (nearestCentroid cents) data
      in if newLabels = labels then (labels, cents)
         else kmeansLoop iters data k d newLabels (updateCentroids data newLabels k d))"

definition kmeans ::
  "jsnum list list \<Rightarrow> nat \<Rightarrow> nat \<Rightarrow> (nat \<Rightarrow> nat) \<Rightarrow> error + nat list \<times> jsnum list list" where
  "kmeans data k maxIterations rnd =
     (case data of [] \<Rightarrow> Inl TypeError
      | row0 # _ \<Rightarrow>
          Inr (kmeansLoop maxIterations data k (length row0)
                 (replicate (length data) 0) (initCentroids data k rnd)))"

subsection \<open>Personas\<close>

text \<open>
  \<open>Array.prototype.sort\<close> is stable; with a consistent comparator its result is the
  one of any stable sort, here insertion from the left. A comparator result of \<open>NaN\<close>
  counts as 0.
\<close>

fun insertSorted :: "('a \<Rightarrow> 'a \<Rightarrow> jsnum) \<Rightarrow> 'a \<Rightarrow> 'a list \<Rightarrow> 'a list" where
  "insertSorted cmp x [] = [x]"
| "insertSorted cmp x (y # ys) =
     (if jgt (cmp y x) (Fin 0) then x # y # ys else y # insertSorted cmp x ys)"

definition sortBy :: "('a \<Rightarrow> 'a \<Rightarrow> jsnum) \<Rightarrow> 'a list \<Rightarrow> 'a list" where
  "sortBy cmp xs = fold (insertSorted cmp) xs []"

text \<open>The persona table: id, name, description.\<close>

definition personas :: "(nat \<times> string \<times> string) list" where
  "personas =
     [(0, ''High Achievers'', ''Excellent performance across all cognitive skills''),
      (1, ''Balanced Learners'', ''Good overall performance with consistent skills''),
      (2, ''Developing Students'', ''Average performance with room for improvement''),
      (3, ''Struggling Learners'', ''Lower performance requiring targeted support'')]"

definition centroidAverage :: "jsnum list \<Rightarrow> jsnum" where
  "centroidAverage centroid = jdiv (sumOf centroid) (Fin (real (length centroid)))"

text \<open>The comparator \<open>(a, b) => b.average - a.average\<close> on pairs of index and average.\<close>

definition byAverage :: "nat \<times> jsnum \<Rightarrow> nat \<times> jsnum \<Rightarrow> jsnum" where
  "byAverage a b = jsub (snd b) (snd a)"

definition centroidAverages :: "jsnum list list \<Rightarrow> (nat \<times> jsnum) list" where
  "centroidAverages cents =
     sortBy byAverage
            (map (\<lambda>(index, centroid). (index, centroidAverage centroid)) (enumerate 0 cents))"

text \<open>
  One summary. Reading \<open>personas[personaIndex].name\<close> throws a \<open>TypeError\<close> when the
  rank is beyond the table.
\<close>

definition clusterSummary ::
  "Student list \<Rightarrow> nat list \<Rightarrow> jsnum list list \<Rightarrow> nat \<times> nat \<times> jsnum \<Rightarrow> error + ClusterResult" where
  "clusterSummary students labels cents = (\<lambda>(personaIndex, item).
     (let centroid = cents ! fst item;
          studentsInCluster =
            map snd (filter (\<lambda>(index, s). labels ! index = fst item) (enumerate 0 students))
      in if personaIndex < length personas
         then Inr \<lparr>cluster_id = fst item,
                   persona = fst (snd (personas ! personaIndex)),
                   description = snd (snd (personas ! personaIndex)),
                   characteristics =
                     [(''comprehension'', jmul (numAt centroid 0) (Fin 100)),
                      (''attention'', jmul (numAt centroid 1) (Fin 100)),
                      (''focus'', jmul (numAt centroid 2) (Fin 100)),
                      (''retention'', jmul (numAt centroid 3) (Fin 100)),
                      (''count'', Fin (real (length studentsInCluster))),
                      (''avg_assessment_score'',
                         jdiv (sumOf (map assessment_score studentsInCluster))
                              (Fin (real (length studentsInCluster))))]\<rparr>
         else Inl TypeError))"

text \<open>A \<open>map\<close> whose callback may throw: the first error ends it.\<close>

fun collect :: "(error + 'a) list \<Rightarrow> error + 'a list" where
  "collect [] = Inr []"
| "collect (Inl e # rs) = Inl e"
| "collect (Inr x # rs) = (case collect rs of Inl e \<Rightarrow> Inl e | Inr xs \<Rightarrow> Inr (x # xs))"

subsection \<open>clusterStudents and predictCluster\<close>

text \<open>
  The clusterer is returned with the outcome: the centroids and the trained flag are
  stored before the summaries are built, so they stay stored when building them throws.
\<close>

definition studentFeatures :: "Student \<Rightarrow> jsnum list" where
  "studentFeatures student =
     [comprehension student, attention student, focus student, retention student]"

definition clusterStudents ::
  "StudentClusterer \<Rightarrow> Student list \<Rightarrow> nat \<Rightarrow> (nat \<Rightarrow> nat)
     \<Rightarrow> (error + ClusterResult list) \<times> StudentClusterer" where
  "clusterStudents c students numClusters rnd =
     (let features = map studentFeatures students
      in case normalizeFeatures features of
           Inl e \<Rightarrow> (Inl e, c)
         | Inr normalizedFeatures \<Rightarrow>
           (case kmeans normalizedFeatures numClusters 100 rnd of
              Inl e \<Rightarrow> (Inl e, c)
            | Inr (labels, cents) \<Rightarrow>
              (let c1 = c\<lparr>centroids := cents, isTrainedC := True\<rparr>
               in case collect (map (clusterSummary students labels cents)
                                    (enumerate 0 (centroidAverages cents))) of
                    Inl e \<Rightarrow> (Inl e, c1)
                  | Inr cs \<Rightarrow> (Inr cs, c1\<lparr>clusters := cs\<rparr>))))"

definition predictCluster :: "StudentClusterer \<Rightarrow> PartialStudent \<Rightarrow> ClusterResult option" where
  "predictCluster c student =
     (if \<not> isTrainedC c then None
      else
        (let features = [jdiv (orElse (p_comprehension student) (Fin 0)) (Fin 100),
                         jdiv (orElse (p_attention student) (Fin 0)) (Fin 100),
                         jdiv (orElse (p_focus student) (Fin 0)) (Fin 100),
                         jdiv (orElse (p_retention student) (Fin 0)) (Fin 100)];
             nearestCluster = nearestCentroid (centroids c) features
         in find (\<lambda>cluster. cluster_id cluster = nearestCluster) (clusters c)))"

definition getClusters :: "StudentClusterer \<Rightarrow> ClusterResult list" where
  "getClusters c = clusters c"

section \<open>Notions used in the statements\<close>

text \<open>
  A number that is neither \<open>NaN\<close> nor an infinity, its value, a finite number of
  magnitude at most \<open>B\<close>, and a finite number between two bounds.
\<close>

fun isFin :: "jsnum \<Rightarrow> bool" where
  "isFin (Fin a) = True"
| "isFin PosInf = False"
| "isFin NegInf = False"
| "isFin NaN = False"


fun magAtMost :: "real \<Rightarrow> jsnum \<Rightarrow> bool" where
  "magAtMost B (Fin a) = (\<bar>a\<bar> \<le> B)"
| "magAtMost B PosInf = False"
| "magAtMost B NegInf = False"
| "magAtMost B NaN = False"





text \<open>
  The value of the variable \<open>prediction\<close> of \<open>predict\<close> when its loop over the features
  has ended, before the clipping.
\<close>

definition predictionOf :: "LinearRegressionModel \<Rightarrow> PartialStudent \<Rightarrow> jsnum" where
  "predictionOf m student =
     fst (fold (predictStep m)
            (enumerate 0 [orElse (p_comprehension student) (Fin 0),
                          orElse (p_attention student) (Fin 0),
                          orElse (p_focus student) (Fin 0),
                          orElse (p_retention student) (Fin 0),
                          jdiv (orElse (p_engagement_time student) (Fin 0)) (Fin 100)])
            (intercept m, []))"


text \<open>
  The states a regression model goes through: it is created untrained, and only a
  \<open>train\<close> that returns changes it.
\<close>

inductive reachable :: "LinearRegressionModel \<Rightarrow> bool" where
  fresh: "reachable newLinearRegressionModel"
| trained: "reachable m \<Longrightarrow> train m students = Inr m' \<Longrightarrow> reachable m'"

text \<open>
  The points that carry the label \<open>c\<close>, and the sums of their columns as the update
  accumulates them from zeros.
\<close>

definition assignedPoints :: "jsnum list list \<Rightarrow> nat list \<Rightarrow> nat \<Rightarrow> jsnum list list" where
  "assignedPoints data labels c = map snd (filter (\<lambda>(l, point). l = c) (zip labels data))"

definition columnSums :: "jsnum list list \<Rightarrow> nat \<Rightarrow> jsnum list" where
  "columnSums points d =
     fold (\<lambda>point tot. accumulate jadd tot point) points (replicate d (Fin 0))"





section \<open>Sample data\<close>

text \<open>A student whose four cognitive scores are \<open>v\<close>, with outcome \<open>y\<close>.\<close>

definition sampleStudent :: "real \<Rightarrow> real \<Rightarrow> Student" where
  "sampleStudent v y =
     \<lparr>student_id = ''STU0001'', name = ''Emma Smith'', class_name = ''Physics A'',
      comprehension = Fin v, attention = Fin v, focus = Fin v, retention = Fin v,
      assessment_score = Fin y, engagement_time = Fin 100\<rparr>"

text \<open>A student with the four cognitive scores given one by one, and outcome \<open>y\<close>.\<close>

definition fourScores :: "real \<Rightarrow> real \<Rightarrow> real \<Rightarrow> real \<Rightarrow> real \<Rightarrow> Student" where
  "fourScores c a f r y =
     \<lparr>student_id = ''STU0002'', name = ''Liam Brown'', class_name = ''History B'',
      comprehension = Fin c, attention = Fin a, focus = Fin f, retention = Fin r,
      assessment_score = Fin y, engagement_time = Fin 100\<rparr>"

text \<open>The model that training on the single student \<open>sampleStudent 1 50\<close> leaves.\<close>

definition nanModel :: LinearRegressionModel where
  "nanModel =
     \<lparr>coefficients = [(''comprehension'', NaN), (''attention'', NaN), (''focus'', NaN),
                      (''retention'', NaN), (''engagement_time'', NaN)],
      intercept = NaN, isTrained = True\<rparr>"

text \<open>A trained model with finite coefficients.\<close>

definition sampleModel :: LinearRegressionModel where
  "sampleModel =
     \<lparr>coefficients = [(''comprehension'', Fin 2), (''attention'', Fin 3), (''focus'', Fin 0),
                      (''retention'', Fin 0), (''engagement_time'', Fin 5)],
      intercept = Fin 1, isTrained = True\<rparr>"

text \<open>
  Two students, with all scores at 10 and at 90, their z-scores, and the draws of a run
  given as the list of the indices drawn.
\<close>

definition twoStudents :: "Student list" where
  "twoStudents = [sampleStudent 10 10, sampleStudent 90 90]"

definition twoPoints :: "jsnum list list" where
  "twoPoints = [[Fin (- 1), Fin (- 1), Fin (- 1), Fin (- 1)], [Fin 1, Fin 1, Fin 1, Fin 1]]"

definition draws :: "nat list \<Rightarrow> nat \<Rightarrow> nat" where
  "draws xs i = xs ! i"

text \<open>The summaries and the clusterer that clustering the two students into two leaves.\<close>

definition twoClusters :: "ClusterResult list" where
  "twoClusters =
     [\<lparr>cluster_id = 1, persona = ''High Achievers'',
       description = ''Excellent performance across all cognitive skills'',
       characteristics =
         [(''comprehension'', Fin 100), (''attention'', Fin 100), (''focus'', Fin 100),
          (''retention'', Fin 100), (''count'', Fin 1), (''avg_assessment_score'', Fin 90)]\<rparr>,
      \<lparr>cluster_id = 0, persona = ''Balanced Learners'',
       description = ''Good overall performance with consistent skills'',
       characteristics =
         [(''comprehension'', Fin (- 100)), (''attention'', Fin (- 100)),
          (''focus'', Fin (- 100)), (''retention'', Fin (- 100)), (''count'', Fin 1),
          (''avg_assessment_score'', Fin 10)]\<rparr>]"

definition twoClusterer :: StudentClusterer where
  "twoClusterer = \<lparr>clusters = twoClusters, centroids = twoPoints, isTrainedC = True\<rparr>"






definition noStudents :: "Student list" where
  "noStudents = []"

section \<open>Arithmetic below the overflow\<close>

lemma overflowAt_large: "10 ^ 300 \<le> overflowAt"
  by (simp add: overflowAt_def)


lemma fin_id: "\<bar>x\<bar> < overflowAt \<Longrightarrow> fin x = Fin x"
  by (auto simp: fin_def)

lemma fin_small: "- 1000000 \<le> x \<Longrightarrow> x \<le> 1000000 \<Longrightarrow> fin x = Fin x"
  using overflowAt_large by (intro fin_id) (simp add: abs_less_iff)

section \<open>The regression model\<close>

subsection \<open>Evaluation of the matrix code\<close>

lemma ones_inverse:
  "matrixInverse (replicate 6 (replicate 6 (Fin 1))) = replicate 6 (replicate 6 NaN)"
  by (simp add: fin_small matrixInverse_def gaussStep_def eliminateColumn_def scaleRow_def swapRows_def
      findPivot_def identity_m_def numAt2_def numAt_def jgt_def jsub_def upt_conv_Cons Let_def
      eval_nat_numeral)

lemma train_collinear: "train newLinearRegressionModel [sampleStudent 1 50] = Inr nanModel"
  using ones_inverse
  by (simp add: fin_small train_def sampleStudent_def fitLinearRegression_def transpose_m_def
      matrixMultiply_def vectorMultiply_def featureNames_def nanModel_def
      newLinearRegressionModel_def numAt_def numAt2_def upt_conv_Cons Let_def eval_nat_numeral)


lemma predict_sampleModel:
  "predict sampleModel (toPartial (sampleStudent 10 50)) =
     Inr \<lparr>predicted_score = Fin 56, confidence = Fin (81 / 100),
          feature_importance =
            [(''comprehension'', Fin 20), (''attention'', Fin 30), (''focus'', Fin 0),
             (''retention'', Fin 0), (''engagement_time'', Fin 50)]\<rparr>"
  by (simp add: fin_small predict_def sampleModel_def toPartial_def sampleStudent_def orElse_def
      truthy_def predictStep_def featureNames_def getNum_def normalizeImportance_def sumOf_def
      jmax_def jmin_def jsub_def Let_def)

lemma predict_sampleModel_large:
  "predict sampleModel (toPartial (sampleStudent 1000 50)\<lparr>p_focus := None\<rparr>) =
     Inr \<lparr>predicted_score = Fin 100, confidence = Fin (3 / 5),
          feature_importance =
            [(''comprehension'', Fin 20), (''attention'', Fin 30), (''focus'', Fin 0),
             (''retention'', Fin 0), (''engagement_time'', Fin 50)]\<rparr>"
  by (simp add: fin_small predict_def sampleModel_def toPartial_def sampleStudent_def orElse_def
      truthy_def predictStep_def featureNames_def getNum_def normalizeImportance_def sumOf_def
      jmax_def jmin_def jsub_def Let_def)

subsection \<open>Training\<close>

lemma isFin_iff: "isFin x \<longleftrightarrow> (\<exists>a. x = Fin a)"
  by (cases x) simp_all

lemma train_result:
  "train m students = Inr m' \<Longrightarrow> isTrained m'"
  by (auto simp: train_def split: sum.splits prod.splits)

lemma fit_nonempty:
  assumes "X \<noteq> []"
  shows "\<exists>icpt coefs. fitLinearRegression X y names = Inr (icpt, coefs)"
proof -
  obtain x xs where X: "X = x # xs"
    using assms by (cases X) auto
  obtain T where T: "transpose_m (map (\<lambda>row. Fin 1 # row) X) = Inr T"
    by (auto simp: transpose_m_def X)
  obtain P where P: "matrixMultiply T (map (\<lambda>row. Fin 1 # row) X) = Inr P"
    by (cases "T = []") (auto simp: matrixMultiply_def X)
  show ?thesis
    using T P by (simp add: fitLinearRegression_def Let_def X)
qed

lemma train_nonempty:
  assumes "students \<noteq> []"
  shows "\<exists>icpt coefs. train m students =
           Inr (m\<lparr>coefficients := coefs, intercept := icpt, isTrained := True\<rparr>)"
proof -
  let ?X = "map (\<lambda>student. [comprehension student, attention student, focus student,
                             retention student, jdiv (engagement_time student) (Fin 100)])
                students"
  have "?X \<noteq> []"
    using assms by simp
  then obtain icpt coefs where
    "fitLinearRegression ?X (map assessment_score students) featureNames = Inr (icpt, coefs)"
    using fit_nonempty by blast
  then show ?thesis
    by (auto simp: train_def)
qed

lemma reachable_untrained:
  "reachable m \<Longrightarrow> \<not> isTrained m \<Longrightarrow> m = newLinearRegressionModel"
  by (induction rule: reachable.induct) (auto dest: train_result)

text \<open>
  C5, as the code has it. \<open>train\<close> on the empty record list fails with the
  \<open>TypeError\<close> of the runtime: the design matrix is empty, and reading the length of its
  first row throws. Nothing is stored before, so the model is as it was. The source has
  no error of its own for an empty data set.
\<close>

theorem train_empty_fails: "train m [] = Inl TypeError"
  by (simp add: train_def fitLinearRegression_def)

text \<open>
  C3, as the code has it. \<open>matrixInverse\<close> has no test of the pivot and no failure, and
  no error for a singular matrix exists: \<open>train\<close> on any record list that is not empty
  returns, with the model marked as trained, whether the cross product is singular or
  not.
\<close>

theorem train_returns_on_records:
  assumes "students \<noteq> []"
  shows "\<exists>icpt coefs. train m students =
           Inr (m\<lparr>coefficients := coefs, intercept := icpt, isTrained := True\<rparr>)"
  using assms by (rule train_nonempty)

text \<open>The statement above at one record.\<close>

theorem train_returns_on_records_witness:
  "[sampleStudent 1 50] \<noteq> []
   \<and> (\<exists>icpt coefs. train newLinearRegressionModel [sampleStudent 1 50] =
         Inr (newLinearRegressionModel\<lparr>coefficients := coefs, intercept := icpt,
                                         isTrained := True\<rparr>))"
  using train_returns_on_records [of "[sampleStudent 1 50]" newLinearRegressionModel]
  by simp

text \<open>
  Against the claim as the specification states it: the 2 by 2 matrix of ones is singular,
  its second pivot is zero, and \<open>matrixInverse\<close> returns the infinities of the division
  by it; \<open>train\<close> on a single record, whose cross product is the singular 6 by 6 matrix of
  ones, returns a trained model whose coefficients are all \<open>NaN\<close>.
\<close>

theorem singular_matrix_not_rejected:
  "matrixInverse [[Fin 1, Fin 1], [Fin 1, Fin 1]] = [[PosInf, NegInf], [NegInf, PosInf]]
   \<and> train newLinearRegressionModel [sampleStudent 1 50] = Inr nanModel"
  using train_collinear
  by (simp add: fin_small matrixInverse_def gaussStep_def eliminateColumn_def scaleRow_def swapRows_def
      findPivot_def identity_m_def numAt2_def numAt_def jgt_def jsub_def upt_conv_Cons Let_def)

subsection \<open>Reading an untrained model\<close>

text \<open>
  C6, as the code has it. An untrained model is the fresh one: it has no coefficients and
  intercept 0, and \<open>predict\<close> fails on it with the error of the source. The summary
  reader does not fail: it returns the summary with the empty coefficients and the flag.
\<close>

theorem untrained_model_reads:
  assumes "reachable m" and "\<not> isTrained m"
  shows "coefficients m = [] \<and> intercept m = Fin 0
         \<and> predict m r = Inl notTrained
         \<and> getModelSummary m =
             Inr \<lparr>ms_type = ''Linear Regression'', ms_coefficients = [],
                  ms_intercept = Fin 0, ms_trained = False\<rparr>"
proof -
  have "m = newLinearRegressionModel"
    using assms by (rule reachable_untrained)
  then show ?thesis
    by (simp add: newLinearRegressionModel_def predict_def getModelSummary_def)
qed

text \<open>The statement above at the fresh model.\<close>

theorem untrained_model_reads_witness:
  "reachable newLinearRegressionModel \<and> \<not> isTrained newLinearRegressionModel
   \<and> coefficients newLinearRegressionModel = []
   \<and> intercept newLinearRegressionModel = Fin 0
   \<and> predict newLinearRegressionModel (toPartial (sampleStudent 10 50)) = Inl notTrained
   \<and> getModelSummary newLinearRegressionModel =
       Inr \<lparr>ms_type = ''Linear Regression'', ms_coefficients = [],
            ms_intercept = Fin 0, ms_trained = False\<rparr>"
proof -
  have r: "reachable newLinearRegressionModel"
    by (rule reachable.fresh)
  have u: "\<not> isTrained newLinearRegressionModel"
    by (simp add: newLinearRegressionModel_def)
  show ?thesis
    using r u untrained_model_reads [OF r u, of "toPartial (sampleStudent 10 50)"] by simp
qed

text \<open>
  Against the claim as the specification states it: on the fresh, untrained model the
  summary reader returns.
\<close>

theorem summary_of_untrained_model:
  "\<not> isTrained newLinearRegressionModel
   \<and> getModelSummary newLinearRegressionModel =
       Inr \<lparr>ms_type = ''Linear Regression'', ms_coefficients = [],
            ms_intercept = Fin 0, ms_trained = False\<rparr>"
  by (simp add: newLinearRegressionModel_def getModelSummary_def)

subsection \<open>Prediction\<close>

lemma predict_importance:
  assumes "isTrained m"
  shows "\<exists>s c. predict m r =
           Inr \<lparr>predicted_score = s, confidence = c,
                feature_importance =
                  normalizeImportance
                    (fold (\<lambda>key imp. AList.update key (jabs (getNum (coefficients m) key)) imp)
                          featureNames [])\<rparr>"
  using assms
  by (simp add: predict_def predictStep_def featureNames_def Let_def)












lemma predictionOf_unfold:
  "predictionOf m r =
     jadd (jadd (jadd (jadd (jadd (intercept m)
       (jmul (orElse (p_comprehension r) (Fin 0)) (getNum (coefficients m) ''comprehension'')))
       (jmul (orElse (p_attention r) (Fin 0)) (getNum (coefficients m) ''attention'')))
       (jmul (orElse (p_focus r) (Fin 0)) (getNum (coefficients m) ''focus'')))
       (jmul (orElse (p_retention r) (Fin 0)) (getNum (coefficients m) ''retention'')))
       (jmul (jdiv (orElse (p_engagement_time r) (Fin 0)) (Fin 100))
             (getNum (coefficients m) ''engagement_time''))"
  by (simp add: predictionOf_def predictStep_def featureNames_def Let_def)


lemma predictionOf_sample:
  "predictionOf sampleModel (toPartial (sampleStudent 1000 50)) = Fin 5006"
  by (simp add: predictionOf_unfold sampleModel_def toPartial_def sampleStudent_def orElse_def
      truthy_def getNum_def fin_small)



text \<open>
  C9. The importance map that \<open>predict\<close> returns is the same for every record: it is
  built from the magnitudes of the coefficients alone.
\<close>

theorem importance_independent_of_record:
  assumes "predict m r1 = Inr p1" and "predict m r2 = Inr p2"
  shows "feature_importance p1 = feature_importance p2"
proof -
  have t: "isTrained m"
    using assms(1) by (auto simp: predict_def split: if_splits)
  from predict_importance [OF t, of r1] predict_importance [OF t, of r2] assms
  show ?thesis by auto
qed

text \<open>The statement above at two records of different magnitude.\<close>

theorem importance_independent_of_record_witness:
  "predict sampleModel (toPartial (sampleStudent 10 50)) =
     Inr \<lparr>predicted_score = Fin 56, confidence = Fin (81 / 100),
          feature_importance =
            [(''comprehension'', Fin 20), (''attention'', Fin 30), (''focus'', Fin 0),
             (''retention'', Fin 0), (''engagement_time'', Fin 50)]\<rparr>
   \<and> predict sampleModel (toPartial (sampleStudent 1000 50)\<lparr>p_focus := None\<rparr>) =
     Inr \<lparr>predicted_score = Fin 100, confidence = Fin (3 / 5),
          feature_importance =
            [(''comprehension'', Fin 20), (''attention'', Fin 30), (''focus'', Fin 0),
             (''retention'', Fin 0), (''engagement_time'', Fin 50)]\<rparr>
   \<and> feature_importance
        \<lparr>predicted_score = Fin 56, confidence = Fin (81 / 100),
         feature_importance =
           [(''comprehension'', Fin 20), (''attention'', Fin 30), (''focus'', Fin 0),
            (''retention'', Fin 0), (''engagement_time'', Fin 50)]\<rparr>
     = feature_importance
        \<lparr>predicted_score = Fin 100, confidence = Fin (3 / 5),
         feature_importance =
           [(''comprehension'', Fin 20), (''attention'', Fin 30), (''focus'', Fin 0),
            (''retention'', Fin 0), (''engagement_time'', Fin 50)]\<rparr>"
  using predict_sampleModel predict_sampleModel_large
    importance_independent_of_record [OF predict_sampleModel predict_sampleModel_large]
  by simp




text \<open>
  C10. In \<open>predict\<close> and in \<open>predictCluster\<close> an absent feature is read as 0: the
  result on a record without the field is the result on the record with the field at 0.
\<close>

theorem absent_feature_is_zero:
  "predict m (r\<lparr>p_comprehension := None\<rparr>) = predict m (r\<lparr>p_comprehension := Some (Fin 0)\<rparr>)
   \<and> predict m (r\<lparr>p_attention := None\<rparr>) = predict m (r\<lparr>p_attention := Some (Fin 0)\<rparr>)
   \<and> predict m (r\<lparr>p_focus := None\<rparr>) = predict m (r\<lparr>p_focus := Some (Fin 0)\<rparr>)
   \<and> predict m (r\<lparr>p_retention := None\<rparr>) = predict m (r\<lparr>p_retention := Some (Fin 0)\<rparr>)
   \<and> predict m (r\<lparr>p_engagement_time := None\<rparr>)
       = predict m (r\<lparr>p_engagement_time := Some (Fin 0)\<rparr>)
   \<and> predictCluster c (r\<lparr>p_comprehension := None\<rparr>)
       = predictCluster c (r\<lparr>p_comprehension := Some (Fin 0)\<rparr>)
   \<and> predictCluster c (r\<lparr>p_attention := None\<rparr>)
       = predictCluster c (r\<lparr>p_attention := Some (Fin 0)\<rparr>)
   \<and> predictCluster c (r\<lparr>p_focus := None\<rparr>) = predictCluster c (r\<lparr>p_focus := Some (Fin 0)\<rparr>)
   \<and> predictCluster c (r\<lparr>p_retention := None\<rparr>)
       = predictCluster c (r\<lparr>p_retention := Some (Fin 0)\<rparr>)"
  by (simp add: predict_def predictCluster_def orElse_def truthy_def)

section \<open>The clusterer\<close>

subsection \<open>The centroid update\<close>


lemma fold_enumerate_labels:
  "n + length data \<le> length labels \<Longrightarrow>
   fold (\<lambda>(index, point). F (labels ! index) point) (enumerate n data) acc
   = fold (\<lambda>(l, point). F l point) (zip (drop n labels) data) acc"
proof (induction data arbitrary: n acc)
  case Nil
  then show ?case by simp
next
  case (Cons p ps)
  then have "n < length labels" by simp
  then have d: "drop n labels = labels ! n # drop (Suc n) labels"
    by (simp add: Cons_nth_drop_Suc)
  show ?case
    using Cons by (simp add: d)
qed

lemma clusterSums_zip:
  assumes "length labels = length data"
  shows "clusterSums data labels k d =
         fold (\<lambda>(l, point). sumStep l point) (zip labels data)
              (replicate k (replicate d (Fin 0)), replicate k 0)"
proof -
  have "clusterSums data labels k d =
        fold (\<lambda>(index, point). sumStep (labels ! index) point) (enumerate 0 data)
             (replicate k (replicate d (Fin 0)), replicate k 0)"
    by (simp add: clusterSums_def)
  also have "\<dots> = fold (\<lambda>(l, point). sumStep l point) (zip (drop 0 labels) data)
                     (replicate k (replicate d (Fin 0)), replicate k 0)"
    using assms by (intro fold_enumerate_labels) simp
  finally show ?thesis by simp
qed

lemma fold_sumStep:
  assumes "c < length tots" and "length counts = length tots"
  shows "length (fst (fold (\<lambda>(l, point). sumStep l point) lps (tots, counts))) = length tots
       \<and> length (snd (fold (\<lambda>(l, point). sumStep l point) lps (tots, counts))) = length tots
       \<and> fst (fold (\<lambda>(l, point). sumStep l point) lps (tots, counts)) ! c
         = fold (\<lambda>point s. accumulate jadd s point)
                (map snd (filter (\<lambda>(l, point). l = c) lps)) (tots ! c)
       \<and> snd (fold (\<lambda>(l, point). sumStep l point) lps (tots, counts)) ! c
         = counts ! c + length (filter (\<lambda>(l, point). l = c) lps)"
  using assms
proof (induction lps arbitrary: tots counts)
  case Nil
  then show ?case by simp
next
  case (Cons lp lps)
  obtain l p where lp: "lp = (l, p)" by (cases lp)
  let ?tots = "tots[l := accumulate jadd (tots ! l) p]"
  let ?counts = "counts[l := counts ! l + 1]"
  have len: "c < length ?tots" "length ?counts = length ?tots"
    using Cons.prems by simp_all
  note ih = Cons.IH [OF len]
  show ?case
  proof (cases "l = c")
    case True
    with ih Cons.prems show ?thesis
      by (simp add: lp sumStep_def)
  next
    case False
    with ih Cons.prems show ?thesis
      by (simp add: lp sumStep_def)
  qed
qed

lemma updateCentroids_nth:
  assumes "c < k" and "length labels = length data"
  shows "updateCentroids data labels k d ! c =
           (if assignedPoints data labels c = [] then replicate d (Fin 0)
            else map (\<lambda>sum. jdiv sum (Fin (real (length (assignedPoints data labels c)))))
                     (columnSums (assignedPoints data labels c) d))"
proof -
  let ?init = "(replicate k (replicate d (Fin 0)), replicate k (0::nat))"
  let ?res = "fold (\<lambda>(l, point). sumStep l point) (zip labels data) ?init"
  have cs: "clusterSums data labels k d = ?res"
    using assms(2) by (rule clusterSums_zip)
  have "c < length (replicate k (replicate d (Fin 0)))"
    and "length (replicate k (0::nat)) = length (replicate k (replicate d (Fin 0)))"
    using assms(1) by simp_all
  from fold_sumStep [OF this, of "zip labels data"]
  have len: "length (fst ?res) = k"
    and s: "fst ?res ! c = columnSums (assignedPoints data labels c) d"
    and n: "snd ?res ! c = length (assignedPoints data labels c)"
    using assms(1) by (simp_all add: columnSums_def assignedPoints_def)
  have e: "assignedPoints data labels c = [] \<Longrightarrow> columnSums (assignedPoints data labels c) d = replicate d (Fin 0)"
    by (simp add: columnSums_def)
  obtain newCentroids counts where r: "?res = (newCentroids, counts)"
    by (cases ?res)
  show ?thesis
    using len s n e assms(1)
    by (simp add: updateCentroids_def cs r nth_enumerate_eq)
qed

lemma fold_sumStep_length:
  "length (fst (fold (\<lambda>(l, point). sumStep l point) lps (tots, counts))) = length tots"
  by (induction lps arbitrary: tots counts) (auto simp: sumStep_def)

lemma updateCentroids_length:
  assumes "length labels = length data"
  shows "length (updateCentroids data labels k d) = k"
proof -
  let ?res = "fold (\<lambda>(l, point). sumStep l point) (zip labels data)
                (replicate k (replicate d (Fin 0)), replicate k (0::nat))"
  obtain newCentroids counts where r: "?res = (newCentroids, counts)"
    by (cases ?res)
  have "length (fst ?res) = k"
    by (simp add: fold_sumStep_length)
  then show ?thesis
    by (simp add: updateCentroids_def clusterSums_zip [OF assms] r)
qed

subsection \<open>Sorting and collecting\<close>



lemma mset_insertSorted: "mset (insertSorted cmp x ys) = add_mset x (mset ys)"
  by (induction ys) auto

lemma mset_fold_insertSorted: "mset (fold (insertSorted cmp) xs acc) = mset xs + mset acc"
  by (induction xs arbitrary: acc) (auto simp: mset_insertSorted)

lemma mset_sortBy: "mset (sortBy cmp xs) = mset xs"
  by (simp add: sortBy_def mset_fold_insertSorted)

lemma length_sortBy: "length (sortBy cmp xs) = length xs"
  using mset_sortBy [of cmp xs] by (metis size_mset)







lemma length_centroidAverages: "length (centroidAverages cents) = length cents"
  by (simp add: centroidAverages_def length_sortBy)

lemma collect_map_Inr: "collect (map Inr ys) = Inr ys"
  by (induction ys) auto

lemma collect_Inr_D: "collect rs = Inr ys \<Longrightarrow> rs = map Inr ys"
proof (induction rs arbitrary: ys)
  case Nil
  then show ?case by auto
next
  case (Cons r rs)
  show ?case
  proof (cases r)
    case (Inl e)
    with Cons.prems show ?thesis by simp
  next
    case (Inr x)
    with Cons.prems obtain zs where z: "collect rs = Inr zs" and y: "ys = x # zs"
      by (auto split: sum.splits)
    from Cons.IH [OF z] Inr y show ?thesis by simp
  qed
qed

lemma collect_Inl: "collect rs = Inl e \<Longrightarrow> Inl e \<in> set rs"
proof (induction rs)
  case Nil
  then show ?case by simp
next
  case (Cons r rs)
  then show ?case
    by (cases r) (auto split: sum.splits)
qed

lemma collect_all_Inr:
  assumes "\<forall>r\<in>set rs. \<exists>y. r = Inr y"
  shows "\<exists>ys. collect rs = Inr ys"
proof (cases "collect rs")
  case (Inl e)
  then have "Inl e \<in> set rs" by (rule collect_Inl)
  with assms show ?thesis by auto
next
  case (Inr ys)
  then show ?thesis by blast
qed

lemma kmeansLoop_lengths:
  assumes "length cents = k" and "length labels = length data"
  shows "length (snd (kmeansLoop n data k d labels cents)) = k
         \<and> length (fst (kmeansLoop n data k d labels cents)) = length data"
  using assms
proof (induction n arbitrary: labels cents)
  case 0
  then show ?case by simp
next
  case (Suc n)
  let ?new = "map (nearestCentroid cents) data"
  have "length (updateCentroids data ?new k d) = k"
    by (simp add: updateCentroids_length)
  with Suc show ?case
    by (simp add: Let_def)
qed

lemma normalizeFeatures_nonempty:
  assumes "features \<noteq> []"
  shows "\<exists>nf. normalizeFeatures features = Inr nf \<and> length nf = length features"
  using assms by (cases features) (simp_all add: normalizeFeatures_def Let_def)

lemma kmeans_nonempty:
  assumes "data \<noteq> []"
  shows "\<exists>labels cents. kmeans data k maxIterations rnd = Inr (labels, cents)
           \<and> length cents = k \<and> length labels = length data"
proof -
  obtain row0 rest where d: "data = row0 # rest"
    using assms by (cases data) auto
  let ?r = "kmeansLoop maxIterations data k (length row0) (replicate (length data) 0)
              (initCentroids data k rnd)"
  have "length (snd ?r) = k \<and> length (fst ?r) = length data"
    by (rule kmeansLoop_lengths) (simp_all add: initCentroids_def)
  moreover have "kmeans data k maxIterations rnd = Inr ?r"
    by (simp add: kmeans_def d)
  ultimately show ?thesis
    by (cases ?r) auto
qed

subsection \<open>The outcome of clusterStudents\<close>


lemma clusterSummary_cases:
  "clusterSummary students labels cents (i, item) =
     (if i < 4
      then Inr \<lparr>cluster_id = fst item, persona = fst (snd (personas ! i)),
                description = snd (snd (personas ! i)),
                characteristics =
                  [(''comprehension'', jmul (numAt (cents ! fst item) 0) (Fin 100)),
                   (''attention'', jmul (numAt (cents ! fst item) 1) (Fin 100)),
                   (''focus'', jmul (numAt (cents ! fst item) 2) (Fin 100)),
                   (''retention'', jmul (numAt (cents ! fst item) 3) (Fin 100)),
                   (''count'', Fin (real (length (filter (\<lambda>(index, s). labels ! index = fst item)
                                                    (enumerate 0 students))))),
                   (''avg_assessment_score'',
                      jdiv (sumOf (map assessment_score
                             (map snd (filter (\<lambda>(index, s). labels ! index = fst item)
                                              (enumerate 0 students)))))
                           (Fin (real (length (filter (\<lambda>(index, s). labels ! index = fst item)
                                                      (enumerate 0 students))))))]\<rparr>
      else Inl TypeError)"
  by (simp add: clusterSummary_def Let_def personas_def)

lemma clusterStudents_empty: "clusterStudents c [] k rnd = (Inl TypeError, c)"
  by (simp add: clusterStudents_def normalizeFeatures_def)

lemma clusterStudents_nonempty:
  assumes "students \<noteq> []"
  shows "\<exists>nf labels cents.
           normalizeFeatures (map studentFeatures students) = Inr nf
           \<and> kmeans nf k 100 rnd = Inr (labels, cents)
           \<and> length nf = length students \<and> length cents = k
           \<and> clusterStudents c students k rnd =
               (case collect (map (clusterSummary students labels cents)
                                  (enumerate 0 (centroidAverages cents))) of
                  Inl e \<Rightarrow> (Inl e, c\<lparr>centroids := cents, isTrainedC := True\<rparr>)
                | Inr cs \<Rightarrow> (Inr cs, c\<lparr>centroids := cents, isTrainedC := True, clusters := cs\<rparr>))"
proof -
  have f: "map studentFeatures students \<noteq> []"
    using assms by simp
  from normalizeFeatures_nonempty [OF f] obtain nf where
    nf: "normalizeFeatures (map studentFeatures students) = Inr nf"
    and ln: "length nf = length students"
    by auto
  have "nf \<noteq> []"
    using ln assms by auto
  from kmeans_nonempty [OF this, of k 100 rnd] obtain labels cents where
    km: "kmeans nf k 100 rnd = Inr (labels, cents)" and lc: "length cents = k"
    by auto
  have "clusterStudents c students k rnd =
          (case collect (map (clusterSummary students labels cents)
                             (enumerate 0 (centroidAverages cents))) of
             Inl e \<Rightarrow> (Inl e, c\<lparr>centroids := cents, isTrainedC := True\<rparr>)
           | Inr cs \<Rightarrow> (Inr cs, c\<lparr>centroids := cents, isTrainedC := True, clusters := cs\<rparr>))"
    using nf km
    by (simp add: clusterStudents_def Let_def split: sum.splits)
  with nf km ln lc show ?thesis
    by blast
qed

lemma summaries_small:
  assumes "length items \<le> 4"
  shows "\<exists>cs. collect (map (clusterSummary students labels cents) (enumerate 0 items)) = Inr cs
              \<and> length cs = length items"
proof -
  let ?rs = "map (clusterSummary students labels cents) (enumerate 0 items)"
  have "\<forall>r\<in>set ?rs. \<exists>y. r = Inr y"
    using assms by (auto simp: in_set_enumerate_eq clusterSummary_cases)
  then obtain cs where cs: "collect ?rs = Inr cs"
    using collect_all_Inr by blast
  then have "?rs = map Inr cs"
    by (rule collect_Inr_D)
  then have "length ?rs = length cs"
    by (metis length_map)
  with cs show ?thesis
    by simp
qed

lemma summaries_large:
  assumes "4 < length items"
  shows "collect (map (clusterSummary students labels cents) (enumerate 0 items)) = Inl TypeError"
proof -
  let ?rs = "map (clusterSummary students labels cents) (enumerate 0 items)"
  have bad: "?rs ! 4 = Inl TypeError"
    using assms by (simp add: nth_enumerate_eq clusterSummary_cases)
  have all: "\<forall>r\<in>set ?rs. r = Inl TypeError \<or> (\<exists>y. r = Inr y)"
    by (auto simp: clusterSummary_cases)
  show ?thesis
  proof (cases "collect ?rs")
    case (Inl e)
    then have "Inl e \<in> set ?rs" by (rule collect_Inl)
    with all have "e = TypeError" by auto
    with Inl show ?thesis by simp
  next
    case (Inr cs)
    then have "?rs = map Inr cs" by (rule collect_Inr_D)
    then have "?rs ! 4 = map Inr cs ! 4" and "length ?rs = length cs"
      by (simp, metis length_map)
    with bad assms show ?thesis by simp
  qed
qed

lemma clusterStudents_cases:
  "(students = [] \<or> 4 < k \<longrightarrow> fst (clusterStudents c students k rnd) = Inl TypeError)
   \<and> (students \<noteq> [] \<and> k \<le> 4 \<longrightarrow>
        (\<exists>cs. fst (clusterStudents c students k rnd) = Inr cs \<and> length cs = k))"
proof (cases "students = []")
  case True
  then show ?thesis by (simp add: clusterStudents_empty)
next
  case False
  from clusterStudents_nonempty [OF False, of k rnd c] obtain nf labels cents where
    lc: "length cents = k"
    and cl: "clusterStudents c students k rnd =
               (case collect (map (clusterSummary students labels cents)
                                  (enumerate 0 (centroidAverages cents))) of
                  Inl e \<Rightarrow> (Inl e, c\<lparr>centroids := cents, isTrainedC := True\<rparr>)
                | Inr cs \<Rightarrow> (Inr cs, c\<lparr>centroids := cents, isTrainedC := True, clusters := cs\<rparr>))"
    by blast
  have len: "length (centroidAverages cents) = k"
    using lc by (simp add: length_centroidAverages)
  show ?thesis
  proof (cases "k \<le> 4")
    case True
    with summaries_small [of "centroidAverages cents" students labels cents] len
    show ?thesis
      using False by (auto simp: cl)
  next
    case k: False
    with summaries_large [of "centroidAverages cents" students labels cents] len
    show ?thesis
      by (simp add: cl)
  qed
qed

subsection \<open>Arithmetic on bounded numbers\<close>


lemma magAtMost_mono: "magAtMost A x \<Longrightarrow> A \<le> B \<Longrightarrow> magAtMost B x"
  by (cases x) simp_all

lemma magAtMost_isFin: "magAtMost A x \<Longrightarrow> isFin x"
  by (cases x) simp_all





























subsection \<open>The ranking\<close>






subsection \<open>Evaluation of concrete runs\<close>

lemma sqrt_1600: "sqrt 1600 = 40"
  by (rule real_sqrt_unique) simp_all

lemmas kmeans_eval =
  kmeans_def initCentroids_def upt_conv_Cons eval_nat_numeral nearestCentroid_def
  euclideanDistance_def updateCentroids_def clusterSums_def sumStep_def Let_def numAt_def
  jsub_def draws_def fin_small

lemmas cluster_eval =
  clusterStudents_def sampleStudent_def fourScores_def studentFeatures_def
  newStudentClusterer_def normalizeFeatures_def columnMeans_def columnStds_def orElse_def
  truthy_def sqrt_1600 kmeans_eval centroidAverages_def centroidAverage_def byAverage_def
  sortBy_def clusterSummary_def personas_def sumOf_def jgt_def

lemma normalize_twoStudents:
  "normalizeFeatures (map studentFeatures twoStudents) = Inr twoPoints"
  by (simp add: twoStudents_def twoPoints_def sampleStudent_def studentFeatures_def
      normalizeFeatures_def columnMeans_def columnStds_def Let_def numAt_def jsub_def
      orElse_def truthy_def sqrt_1600 fin_small)

lemma kmeans_twoPoints: "kmeans twoPoints 2 100 (draws [0, 1]) = Inr ([0, 1], twoPoints)"
  by (simp add: twoPoints_def kmeans_eval)

lemma kmeans_three:
  "kmeans twoPoints 3 100 (draws [0, 1, 1]) =
     Inr ([0, 1], [[Fin (- 1), Fin (- 1), Fin (- 1), Fin (- 1)], [Fin 1, Fin 1, Fin 1, Fin 1],
                   [Fin 0, Fin 0, Fin 0, Fin 0]])"
  by (simp add: twoPoints_def kmeans_eval)

lemma init_three:
  "initCentroids twoPoints 3 (draws [0, 1, 1]) =
     [[Fin (- 1), Fin (- 1), Fin (- 1), Fin (- 1)], [Fin 1, Fin 1, Fin 1, Fin 1],
      [Fin 1, Fin 1, Fin 1, Fin 1]]"
  by (simp add: twoPoints_def kmeans_eval)

lemma assign_three:
  "map (nearestCentroid (initCentroids twoPoints 3 (draws [0, 1, 1]))) twoPoints = [0, 1]"
  by (simp add: twoPoints_def kmeans_eval)

lemma update_three:
  "updateCentroids twoPoints [0, 1] 3 4 =
     [[Fin (- 1), Fin (- 1), Fin (- 1), Fin (- 1)], [Fin 1, Fin 1, Fin 1, Fin 1],
      [Fin 0, Fin 0, Fin 0, Fin 0]]"
  by (simp add: twoPoints_def kmeans_eval)

lemma cluster_twoStudents:
  "clusterStudents newStudentClusterer twoStudents 2 (draws [0, 1]) = (Inr twoClusters, twoClusterer)"
  by (simp add: cluster_eval twoStudents_def twoClusters_def twoClusterer_def twoPoints_def)


lemma cluster_four:
  "map_sum id (map (\<lambda>x. (cluster_id x, persona x, getNum (characteristics x) ''count'')))
     (fst (clusterStudents newStudentClusterer twoStudents 4 (draws [0, 1, 0, 1])))
   = Inr [(1, ''High Achievers'', Fin 1), (2, ''Balanced Learners'', Fin 0),
          (3, ''Developing Students'', Fin 0), (0, ''Struggling Learners'', Fin 1)]"
  by (simp add: cluster_eval twoStudents_def getNum_def)

lemma predict_twoClusterer:
  "predictCluster twoClusterer (toPartial (sampleStudent 10 10)) = Some (twoClusters ! 0)"
  by (simp add: predictCluster_def twoClusterer_def twoClusters_def twoPoints_def toPartial_def
      sampleStudent_def orElse_def truthy_def nearestCentroid_def euclideanDistance_def
      numAt_def jsub_def fin_small)


subsection \<open>The claims on the clusterer\<close>

text \<open>
  C1, evaluated where the code departs from it. The two students are clustered into two;
  the student with all scores at 10 has the z-scores \<open>-1\<close>, carries label 0, and the
  centroid nearest to its z-scores is centroid 0. \<open>predictCluster\<close> on the same student
  divides the scores by 100 instead, finds centroid 1 nearest, and returns the summary of
  cluster 1, the cluster of the other student.
\<close>

theorem predictCluster_leaves_training_space:
  "clusterStudents newStudentClusterer twoStudents 2 (draws [0, 1]) = (Inr twoClusters, twoClusterer)
   \<and> normalizeFeatures (map studentFeatures twoStudents) = Inr twoPoints
   \<and> kmeans twoPoints 2 100 (draws [0, 1]) = Inr ([0, 1], twoPoints)
   \<and> nearestCentroid (centroids twoClusterer) (twoPoints ! 0) = 0
   \<and> map_option cluster_id (predictCluster twoClusterer (toPartial (twoStudents ! 0))) = Some 1
   \<and> map_option persona (predictCluster twoClusterer (toPartial (twoStudents ! 0)))
       = Some ''High Achievers''"
  using cluster_twoStudents normalize_twoStudents kmeans_twoPoints predict_twoClusterer
  by (simp add: twoStudents_def twoClusters_def twoClusterer_def twoPoints_def
      nearestCentroid_def euclideanDistance_def numAt_def jsub_def fin_small)

text \<open>
  C2, as the code has it. In the update of an iteration, the centroid of a cluster with
  at least one assigned point becomes the mean of its points, column by column; the
  centroid of a cluster without a point becomes the zero vector.
\<close>

theorem centroid_update:
  assumes "c < k" and "length labels = length data"
  shows "updateCentroids data labels k d ! c =
           (if assignedPoints data labels c = [] then replicate d (Fin 0)
            else map (\<lambda>tot. jdiv tot (Fin (real (length (assignedPoints data labels c)))))
                     (columnSums (assignedPoints data labels c) d))"
  using assms by (rule updateCentroids_nth)

text \<open>The statement above at a cluster with a point and at a cluster without one.\<close>

theorem centroid_update_witness:
  "(1::nat) < 3 \<and> (2::nat) < 3 \<and> length [0, 1 :: nat] = length twoPoints
   \<and> updateCentroids twoPoints [0, 1] 3 4 ! 1 = [Fin 1, Fin 1, Fin 1, Fin 1]
   \<and> updateCentroids twoPoints [0, 1] 3 4 ! 2 = [Fin 0, Fin 0, Fin 0, Fin 0]"
  using centroid_update [of 1 3 "[0, 1]" twoPoints 4]
    centroid_update [of 2 3 "[0, 1]" twoPoints 4]
  by (simp add: twoPoints_def assignedPoints_def columnSums_def eval_nat_numeral fin_small)

text \<open>
  Against the claim as the specification states it: with three centroids drawn as the
  points 0, 1 and 1, no point is assigned to the third centroid, which was at the second
  point; the update puts it at the zero vector, and there it is when the run ends.
\<close>

theorem empty_cluster_centroid_is_reset:
  "initCentroids twoPoints 3 (draws [0, 1, 1]) ! 2 = [Fin 1, Fin 1, Fin 1, Fin 1]
   \<and> map (nearestCentroid (initCentroids twoPoints 3 (draws [0, 1, 1]))) twoPoints = [0, 1]
   \<and> updateCentroids twoPoints [0, 1] 3 4 ! 2 = [Fin 0, Fin 0, Fin 0, Fin 0]
   \<and> kmeans twoPoints 3 100 (draws [0, 1, 1]) =
       Inr ([0, 1], [[Fin (- 1), Fin (- 1), Fin (- 1), Fin (- 1)], [Fin 1, Fin 1, Fin 1, Fin 1],
                     [Fin 0, Fin 0, Fin 0, Fin 0]])"
  using init_three assign_three update_three kmeans_three
  by (simp add: eval_nat_numeral)

text \<open>
  C4, as the code has it. \<open>clusterStudents\<close> has no test of the number of records
  against \<open>k\<close>. It fails, with the \<open>TypeError\<close> of the runtime, when the record list is
  empty or \<open>k\<close> is above the four personas; on a list that is not empty and \<open>k\<close> up to
  4 it returns \<open>k\<close> summaries, whatever the draws, also when the records are fewer than
  \<open>k\<close>.
\<close>

theorem clusterStudents_outcome:
  "(students = [] \<or> 4 < k \<longrightarrow> fst (clusterStudents c students k rnd) = Inl TypeError)
   \<and> (students \<noteq> [] \<and> k \<le> 4 \<longrightarrow>
        (\<exists>cs. fst (clusterStudents c students k rnd) = Inr cs \<and> length cs = k))"
  by (rule clusterStudents_cases)

text \<open>The statement above at the empty list, at five clusters and at four.\<close>

theorem clusterStudents_outcome_witness:
  "fst (clusterStudents newStudentClusterer [] 4 (draws [])) = Inl TypeError
   \<and> twoStudents \<noteq> [] \<and> (4::nat) < 5
   \<and> fst (clusterStudents newStudentClusterer twoStudents 5 (draws [0, 1, 0, 1, 0])) = Inl TypeError
   \<and> (4::nat) \<le> 4
   \<and> (\<exists>cs. fst (clusterStudents newStudentClusterer twoStudents 4 (draws [0, 1, 0, 1])) = Inr cs
           \<and> length cs = 4)"
  using clusterStudents_outcome [of "[]" 4 newStudentClusterer "draws []"]
    clusterStudents_outcome [of twoStudents 5 newStudentClusterer "draws [0, 1, 0, 1, 0]"]
    clusterStudents_outcome [of twoStudents 4 newStudentClusterer "draws [0, 1, 0, 1]"]
  by (simp add: twoStudents_def)

text \<open>
  Against the claim as the specification states it: two records clustered with \<open>k = 4\<close>
  give four summaries, two of them of clusters without a member.
\<close>

theorem fewer_records_than_clusters:
  "length twoStudents = 2
   \<and> map_sum id (map (\<lambda>x. (cluster_id x, persona x, getNum (characteristics x) ''count'')))
       (fst (clusterStudents newStudentClusterer twoStudents 4 (draws [0, 1, 0, 1])))
     = Inr [(1, ''High Achievers'', Fin 1), (2, ''Balanced Learners'', Fin 0),
            (3, ''Developing Students'', Fin 0), (0, ''Struggling Learners'', Fin 1)]"
  using cluster_four by (simp add: twoStudents_def)

text \<open>
  Against C5 as the specification states it: the failure on the empty record list is not
  an error of the empty data set. It is the \<open>TypeError\<close> that the runtime raises at
  \<open>X[0].length\<close>, the same error that \<open>clusterStudents\<close> raises on two records
  and five clusters, where the persona table is read beyond its end.
\<close>

theorem empty_training_set_raises_TypeError:
  "train newLinearRegressionModel noStudents = Inl TypeError
   \<and> fitLinearRegression [] [] featureNames = Inl TypeError
   \<and> twoStudents \<noteq> noStudents
   \<and> fst (clusterStudents newStudentClusterer twoStudents 5 (draws [0, 1, 0, 1, 0]))
       = Inl TypeError"
  using clusterStudents_cases [of twoStudents 5 newStudentClusterer "draws [0, 1, 0, 1, 0]"]
  by (simp add: train_def fitLinearRegression_def noStudents_def twoStudents_def)


end
